theory Spec2Isabelle
  imports Main
begin

section \<open>The DevWorkspace client of the dashboard frontend\<close>

text \<open>
  This theory embeds the class \<open>DevWorkspaceClient\<close> (the workspace client of the
  dashboard frontend): its status cache, its last-log-message map, the three WebSocket
  channel listeners installed by \<open>subscribe\<close>, the reconnect callbacks of the constructor,
  \<open>removeWebSocketFailedListener\<close>, \<open>changeWorkspaceStatus\<close> and
  \<open>checkForDevWorkspaceError\<close>.

  The instance fields become a record that every method takes and returns. A value thrown
  by the class is the \<open>Inl\<close> of a sum. What the class hands to its collaborators (alerts,
  console warnings, calls of the subscriber's callbacks, requests given to the WebSocket
  client) is appended to a list kept in the same record, so that the number and the order
  of these calls can be stated. A collaborator that is called synchronously returns what
  its TypeScript signature declares. A promise that the class awaits (the subscriber's
  \<open>getResourceVersion\<close>, the subscribe request of the WebSocket client,
  \<open>DwApi.patchWorkspace\<close>) resolves or rejects, and a rejection is thrown at the
  \<open>await\<close>.
\<close>

subsection \<open>Values received from the wire\<close>

text \<open>
  A JavaScript value that is not an object; \<open>typeof v === 'string'\<close> holds exactly of
  \<open>JString\<close>.
\<close>

datatype jsprim = JUndefined | JNull | JBoolean bool | JNumber int | JString string

record DevWorkspaceMetadata =
  md_name :: string
  md_namespace :: string
  md_uid :: string

text \<open>
  The \<open>status\<close> object of a devworkspace. The phase is read by the class under a
  \<open>typeof\<close> test, so it is kept as an arbitrary primitive; \<open>JUndefined\<close> is the absent
  field. The optional string fields are \<open>None\<close> when absent.
\<close>

record DevWorkspaceStatusFields =
  st_phase :: jsprim
  st_message :: "string option"
  st_mainUrl :: "string option"

record DevWorkspace =
  dw_kind :: string
  dw_metadata :: DevWorkspaceMetadata
  dw_status :: "DevWorkspaceStatusFields option"

text \<open>The payload of a channel event has the TypeScript type \<open>unknown\<close>.\<close>

datatype unknown = UPrim jsprim | UObject DevWorkspace

fun typeof :: "unknown \<Rightarrow> string" where
  "typeof (UPrim JUndefined) = ''undefined''"
| "typeof (UPrim JNull) = ''object''"
| "typeof (UPrim (JBoolean b)) = ''boolean''"
| "typeof (UPrim (JNumber n)) = ''number''"
| "typeof (UPrim (JString s)) = ''string''"
| "typeof (UObject d) = ''object''"

text \<open>
  JavaScript truthiness of an optional string, as tested by \<open>if (statusMessage)\<close> and
  \<open>if (message)\<close>: \<open>undefined\<close> and the empty string are falsy.
\<close>

fun truthy :: "string option \<Rightarrow> bool" where
  "truthy None = False"
| "truthy (Some m) = (m \<noteq> [])"

subsection \<open>Status phases\<close>

text \<open>
  Modelled from the spec: the enum \<open>DevWorkspaceStatus\<close> (services/helpers/types) is not
  among the sources; the spec lists the phases STARTING, STOPPED, RUNNING, FAILED and
  TERMINATING and writes them as these strings.
\<close>

definition STARTING :: string where "STARTING = ''STARTING''"
definition STOPPED :: string where "STOPPED = ''STOPPED''"
definition RUNNING :: string where "RUNNING = ''RUNNING''"
definition FAILED :: string where "FAILED = ''FAILED''"
definition TERMINATING :: string where "TERMINATING = ''TERMINATING''"

subsection \<open>Status updates, alerts, subscribe messages\<close>

record IStatusUpdate =
  error :: "string option"
  message :: "string option"
  status :: "string option"
  prevStatus :: "string option"
  workspaceId :: string

datatype AlertVariant = Warning | Danger

record AlertItem =
  key :: string
  variant :: AlertVariant
  title :: string

record SubscribeParams =
  p_namespace :: string
  p_resourceVersion :: "string option"

record SubscribeMessage =
  request :: string
  params :: SubscribeParams
  channel :: string

text \<open>
  A subscriber is a namespace and four callbacks. The three sinks return nothing: a call
  of one is recorded in the client's list \<open>calls\<close>. The promise of
  \<open>getResourceVersion\<close> resolves with a string or \<open>undefined\<close> (\<open>Inr\<close>) or rejects
  with a reason (\<open>Inl\<close>); its argument here is the number of times it was asked before,
  so that successive answers may differ.
\<close>

record Subscriber =
  sub_namespace :: string
  getResourceVersion :: "nat \<Rightarrow> string + string option"

datatype call =
    GetResourceVersion
  | UpdateDevWorkspaceStatus IStatusUpdate
  | UpdateDeletedDevWorkspaces "string list"
  | UpdateAddedDevWorkspaces "DevWorkspace list"

text \<open>
  What a method of the class throws: a bare string, \<open>new Error(message)\<close>, or the reason
  of an awaited promise that rejected.
\<close>

datatype thrown = ThrowString string | ThrowError string | Rejected string


subsection \<open>The WebSocket client\<close>

text \<open>
  Modelled from the spec: the class \<open>WebsocketClient\<close>
  (dashboard-backend-client/websocketClient) is not among the sources. The spec describes
  a transport that is connected, that is given subscribe requests of the form
  \<open>{ request: "SUBSCRIBE", channel, params: { namespace, resourceVersion } }\<close> and that
  delivers channel events to registered handlers. It is kept as the log of what the
  client asked of it, together with its answers to subscribe requests:
  \<open>subscribeRejection n\<close> is \<open>None\<close> when the promise of the request that follows \<open>n\<close>
  earlier ones resolves, and the reason when it rejects.
\<close>

datatype handler = OnModifiedHandler | OnAddedHandler | OnDeletedHandler

record WebsocketClient =
  connectCalls :: nat
  sent :: "SubscribeMessage list"
  listeners :: "(string \<times> handler) list"
  subscribeRejection :: "nat \<Rightarrow> string option"

subsection \<open>The client's fields\<close>

record DevWorkspaceClient =
  subscriber :: "Subscriber option"
  previousItems :: "string \<rightharpoonup> (string \<rightharpoonup> IStatusUpdate)"
  lastDevWorkspaceLog :: "string \<rightharpoonup> string"
  websocketClient :: WebsocketClient
  webSocketEventListeners :: "nat list"
  webSocketEventsFired :: "nat list"
  failingWebSocketsArr :: "string list"
  alerts :: "AlertItem list"
  consoleWarnings :: "string list"
  calls :: "call list"
  resourceVersionAsked :: nat

text \<open>
  The constructor: empty maps, no subscriber, no failing context, a fresh transport (here
  one that accepts every subscribe request).
\<close>

definition newDevWorkspaceClient :: DevWorkspaceClient where
  "newDevWorkspaceClient =
     \<lparr> subscriber = None,
       previousItems = Map.empty,
       lastDevWorkspaceLog = Map.empty,
       websocketClient = \<lparr> connectCalls = 0, sent = [], listeners = [],
                           subscribeRejection = (\<lambda>n. None) \<rparr>,
       webSocketEventListeners = [],
       webSocketEventsFired = [],
       failingWebSocketsArr = [],
       alerts = [],
       consoleWarnings = [],
       calls = [],
       resourceVersionAsked = 0 \<rparr>"

definition showAlert :: "AlertItem \<Rightarrow> DevWorkspaceClient \<Rightarrow> DevWorkspaceClient" where
  "showAlert a s = s\<lparr>alerts := alerts s @ [a]\<rparr>"

definition consoleWarn :: "string \<Rightarrow> DevWorkspaceClient \<Rightarrow> DevWorkspaceClient" where
  "consoleWarn t s = s\<lparr>consoleWarnings := consoleWarnings s @ [t]\<rparr>"

definition callback :: "call \<Rightarrow> DevWorkspaceClient \<Rightarrow> DevWorkspaceClient" where
  "callback c s = s\<lparr>calls := calls s @ [c]\<rparr>"

text \<open>
  \<open>webSocketEventEmitter.emit(webSocketEventName)\<close> runs every registered callback, in
  registration order. Callbacks are named by numbers.
\<close>

definition emitWebSocketEvent :: "DevWorkspaceClient \<Rightarrow> DevWorkspaceClient" where
  "emitWebSocketEvent s =
     s\<lparr>webSocketEventsFired := webSocketEventsFired s @ webSocketEventListeners s\<rparr>"

definition onWebSocketFailed :: "nat \<Rightarrow> DevWorkspaceClient \<Rightarrow> DevWorkspaceClient" where
  "onWebSocketFailed cb s = s\<lparr>webSocketEventListeners := webSocketEventListeners s @ [cb]\<rparr>"

definition removeWebSocketFailedListener :: "DevWorkspaceClient \<Rightarrow> DevWorkspaceClient" where
  "removeWebSocketFailedListener s =
     s\<lparr>webSocketEventListeners := [], failingWebSocketsArr := []\<rparr>"

definition failingWebSockets :: "DevWorkspaceClient \<Rightarrow> string list" where
  "failingWebSockets s = failingWebSocketsArr s"

subsection \<open>Status updates\<close>

text \<open>
  \<open>createStatusUpdate\<close>. The helper \<open>getId\<close> (workspace-adapter/helper) is not among the
  sources and is a parameter. The update that is returned is the object that is stored in
  the cache.
\<close>

text \<open>
  The status phase of a devworkspace as a string: \<open>devworkspace?.status?.phase\<close> when
  its \<open>typeof\<close> is \<open>'string'\<close>, and \<open>None\<close> when the status or the phase is
  absent or the phase is not a string.
\<close>

definition phaseOf :: "DevWorkspace \<Rightarrow> string option" where
  "phaseOf d =
     (case dw_status d of
        None \<Rightarrow> None
      | Some st \<Rightarrow> (case st_phase st of JString p \<Rightarrow> Some p | _ \<Rightarrow> None))"

definition phaseOrStarting :: "DevWorkspace \<Rightarrow> string" where
  "phaseOrStarting devworkspace =
     (case dw_status devworkspace of
        None \<Rightarrow> STARTING
      | Some st \<Rightarrow> (case st_phase st of JString p \<Rightarrow> p | _ \<Rightarrow> STARTING))"

definition createStatusUpdate ::
  "(DevWorkspace \<Rightarrow> string) \<Rightarrow> DevWorkspace \<Rightarrow> DevWorkspaceClient
     \<Rightarrow> IStatusUpdate \<times> DevWorkspaceClient" where
  "createStatusUpdate getId devworkspace s =
     (let namespace = md_namespace (dw_metadata devworkspace);
          wid = getId devworkspace;
          st = phaseOrStarting devworkspace
      in case previousItems s namespace of
           Some prevWorkspace \<Rightarrow>
             (let prev = prevWorkspace wid;
                  newUpdate = \<lparr> error = None, message = None, status = Some st,
                                prevStatus = (case prev of None \<Rightarrow> None | Some u \<Rightarrow> status u),
                                workspaceId = wid \<rparr>
              in (newUpdate,
                  s\<lparr>previousItems :=
                      (previousItems s)(namespace \<mapsto> prevWorkspace(wid \<mapsto> newUpdate))\<rparr>))
         | None \<Rightarrow>
             (let newStatus = \<lparr> error = None, message = None, status = Some st,
                                prevStatus = Some st, workspaceId = wid \<rparr>
              in (newStatus,
                  s\<lparr>previousItems :=
                      (previousItems s)(namespace \<mapsto> Map.empty(wid \<mapsto> newStatus))\<rparr>)))"

subsection \<open>The channel listeners\<close>

definition onModified :: string where "onModified = ''onModified''"
definition onAdded :: string where "onAdded = ''onAdded''"
definition onDeleted :: string where "onDeleted = ''onDeleted''"

definition quoted :: "string \<Rightarrow> string" where
  "quoted t = [CHR 0x22] @ t @ [CHR 0x22]"

definition notDevWorkspaceTitle :: "string \<Rightarrow> string" where
  "notDevWorkspaceTitle ch =
     ''WebSocket channel '' @ quoted ch
       @ '' received object that is not a devWorkspace, skipping it.''"

definition notStringTitle :: "string \<Rightarrow> string" where
  "notStringTitle ch =
     ''WebSocket channel '' @ quoted ch @ '' received value is not a string, skipping it.''"

definition channelKey :: "string \<Rightarrow> string" where
  "channelKey ch = ch @ ''-websocket-channel''"

text \<open>
  The type guard \<open>isDevWorkspace\<close> (services/devfileApi) is not among the sources and is a
  parameter: it answers \<open>None\<close> when the payload fails the check and \<open>Some d\<close> when it
  passes and the payload is from then on read as the devworkspace \<open>d\<close>.

  A listener runs to completion: it returns \<open>Inr ()\<close> and the client after it. Setting
  \<open>statusUpdate.message\<close> writes to the object that \<open>createStatusUpdate\<close> stored in the
  cache, so the cached entry is written as well.
\<close>

text \<open>\<open>devworkspace.status?.message\<close>.\<close>

definition statusMessageOf :: "DevWorkspace \<Rightarrow> string option" where
  "statusMessageOf devworkspace =
     (case dw_status devworkspace of None \<Rightarrow> None | Some st \<Rightarrow> st_message st)"

definition setCachedMessage ::
  "string \<Rightarrow> string \<Rightarrow> string \<Rightarrow> DevWorkspaceClient \<Rightarrow> DevWorkspaceClient" where
  "setCachedMessage namespace wid m s =
     (case previousItems s namespace of
        None \<Rightarrow> s
      | Some items \<Rightarrow>
          (case items wid of
             None \<Rightarrow> s
           | Some u \<Rightarrow>
               s\<lparr>previousItems :=
                   (previousItems s)(namespace \<mapsto> items(wid \<mapsto> u\<lparr>message := Some m\<rparr>))\<rparr>))"

definition onModifiedListener ::
  "(unknown \<Rightarrow> DevWorkspace option) \<Rightarrow> (DevWorkspace \<Rightarrow> string) \<Rightarrow> unknown
     \<Rightarrow> DevWorkspaceClient \<Rightarrow> (thrown + unit) \<times> DevWorkspaceClient" where
  "onModifiedListener isDevWorkspace getId payload s =
     (case isDevWorkspace payload of
        None \<Rightarrow>
          (Inr (),
           showAlert \<lparr> key = channelKey onModified, variant = Warning,
                       title = notDevWorkspaceTitle onModified \<rparr>
             (consoleWarn (notDevWorkspaceTitle onModified) s))
      | Some devworkspace \<Rightarrow>
          (let (statusUpdate, s1) = createStatusUpdate getId devworkspace s;
               statusMessage = statusMessageOf devworkspace
           in if truthy statusMessage then
                (let wid = getId devworkspace;
                     lastMessage = lastDevWorkspaceLog s1 wid
                 in if lastMessage \<noteq> statusMessage then
                      (let statusUpdate' = statusUpdate\<lparr>message := statusMessage\<rparr>;
                           s2 = setCachedMessage (md_namespace (dw_metadata devworkspace)) wid
                                  (the statusMessage) s1;
                           s3 = s2\<lparr>lastDevWorkspaceLog :=
                                     (lastDevWorkspaceLog s2)(wid \<mapsto> the statusMessage)\<rparr>
                       in (Inr (), callback (UpdateDevWorkspaceStatus statusUpdate') s3))
                    else (Inr (), callback (UpdateDevWorkspaceStatus statusUpdate) s1))
              else (Inr (), callback (UpdateDevWorkspaceStatus statusUpdate) s1)))"

definition onAddedListener ::
  "(unknown \<Rightarrow> DevWorkspace option) \<Rightarrow> unknown
     \<Rightarrow> DevWorkspaceClient \<Rightarrow> (thrown + unit) \<times> DevWorkspaceClient" where
  "onAddedListener isDevWorkspace payload s =
     (case isDevWorkspace payload of
        None \<Rightarrow>
          (Inr (),
           showAlert \<lparr> key = channelKey onAdded, variant = Warning,
                       title = notDevWorkspaceTitle onAdded \<rparr>
             (consoleWarn (notDevWorkspaceTitle onAdded) s))
      | Some devworkspace \<Rightarrow>
          (Inr (), callback (UpdateAddedDevWorkspaces [devworkspace]) s))"

text \<open>\<open>maybeWorkspaceId as string\<close>: read only under \<open>typeof maybeWorkspaceId === 'string'\<close>.\<close>

fun asString :: "unknown \<Rightarrow> string" where
  "asString (UPrim (JString w)) = w"
| "asString _ = []"

definition onDeletedListener ::
  "unknown \<Rightarrow> DevWorkspaceClient \<Rightarrow> (thrown + unit) \<times> DevWorkspaceClient" where
  "onDeletedListener maybeWorkspaceId s =
     (if typeof maybeWorkspaceId \<noteq> ''string'' then
        (Inr (),
         showAlert \<lparr> key = channelKey onDeleted, variant = Warning,
                     title = notStringTitle onDeleted \<rparr>
           (consoleWarn (notStringTitle onDeleted) s))
      else
        (let wid = asString maybeWorkspaceId
         in (Inr (), callback (UpdateDeletedDevWorkspaces [wid]) s)))"

subsection \<open>Subscribing\<close>

definition wsConnect :: "DevWorkspaceClient \<Rightarrow> DevWorkspaceClient" where
  "wsConnect s =
     s\<lparr>websocketClient :=
         (websocketClient s)\<lparr>connectCalls := Suc (connectCalls (websocketClient s))\<rparr>\<rparr>"

text \<open>
  \<open>await this.websocketClient.subscribe(message)\<close>: the request is handed to the
  transport, whose promise resolves or rejects.
\<close>

definition wsSubscribe ::
  "SubscribeMessage \<Rightarrow> DevWorkspaceClient \<Rightarrow> (thrown + unit) \<times> DevWorkspaceClient" where
  "wsSubscribe m s =
     (let ws = websocketClient s;
          s1 = s\<lparr>websocketClient := ws\<lparr>sent := sent ws @ [m]\<rparr>\<rparr>
      in case subscribeRejection ws (length (sent ws)) of
           None \<Rightarrow> (Inr (), s1)
         | Some r \<Rightarrow> (Inl (Rejected r), s1))"

definition wsAddListener ::
  "string \<Rightarrow> handler \<Rightarrow> DevWorkspaceClient \<Rightarrow> DevWorkspaceClient" where
  "wsAddListener ch h s =
     s\<lparr>websocketClient :=
         (websocketClient s)\<lparr>listeners := listeners (websocketClient s) @ [(ch, h)]\<rparr>\<rparr>"

definition subscribeToNamespace :: "Subscriber \<Rightarrow> DevWorkspaceClient \<Rightarrow> DevWorkspaceClient" where
  "subscribeToNamespace sub s = wsConnect (s\<lparr>subscriber := Some sub\<rparr>)"

text \<open>
  \<open>getSubscribeMessage\<close> asks the subscriber for the resource version once per message
  and awaits the answer.
\<close>

definition getSubscribeMessage ::
  "Subscriber \<Rightarrow> string \<Rightarrow> DevWorkspaceClient
     \<Rightarrow> (thrown + SubscribeMessage) \<times> DevWorkspaceClient" where
  "getSubscribeMessage sub ch s =
     (let s1 = callback GetResourceVersion
                 (s\<lparr>resourceVersionAsked := Suc (resourceVersionAsked s)\<rparr>)
      in case getResourceVersion sub (resourceVersionAsked s) of
           Inl r \<Rightarrow> (Inl (Rejected r), s1)
         | Inr rv \<Rightarrow>
             (Inr \<lparr> request = ''SUBSCRIBE'',
                    params = \<lparr> p_namespace = sub_namespace sub, p_resourceVersion = rv \<rparr>,
                    channel = ch \<rparr>, s1))"

text \<open>
  One channel of \<open>subscribe\<close>: build the message, await the subscribe request, add the
  listener. A rejection leaves the method at the \<open>await\<close>.
\<close>

definition subscribeChannel ::
  "Subscriber \<Rightarrow> string \<Rightarrow> handler \<Rightarrow> DevWorkspaceClient
     \<Rightarrow> (thrown + unit) \<times> DevWorkspaceClient" where
  "subscribeChannel sub ch h s =
     (case getSubscribeMessage sub ch s of
        (Inl e, s1) \<Rightarrow> (Inl e, s1)
      | (Inr m, s1) \<Rightarrow>
          (case wsSubscribe m s1 of
             (Inl e, s2) \<Rightarrow> (Inl e, s2)
           | (Inr u, s2) \<Rightarrow> (Inr (), wsAddListener ch h s2)))"

definition subscribe :: "DevWorkspaceClient \<Rightarrow> (thrown + unit) \<times> DevWorkspaceClient" where
  "subscribe s =
     (case subscriber s of
        None \<Rightarrow> (Inl (ThrowString ''Error: Subscriber does not set.''), s)
      | Some sub \<Rightarrow>
          (case subscribeChannel sub onModified OnModifiedHandler s of
             (Inl e, s1) \<Rightarrow> (Inl e, s1)
           | (Inr u, s1) \<Rightarrow>
               (case subscribeChannel sub onAdded OnAddedHandler s1 of
                  (Inl e, s2) \<Rightarrow> (Inl e, s2)
                | (Inr u, s2) \<Rightarrow> subscribeChannel sub onDeleted OnDeletedHandler s2)))"

subsection \<open>The reconnect callbacks of the constructor\<close>



definition onDidWebSocketFailing :: "string \<Rightarrow> DevWorkspaceClient \<Rightarrow> DevWorkspaceClient" where
  "onDidWebSocketFailing websocketContext s =
     emitWebSocketEvent
       (s\<lparr>failingWebSocketsArr := failingWebSocketsArr s @ [websocketContext]\<rparr>)"



subsection \<open>Failed workspaces and stopping\<close>

text \<open>
  \<open>checkForDevWorkspaceError\<close>. The helper \<open>getStatus\<close> (workspace-adapter/helper) is not
  among the sources and is a parameter; \<open>None\<close> is \<open>undefined\<close>.
\<close>

definition unknownErrorText :: string where
  "unknownErrorText = ''Unknown error occured when trying to process the devworkspace''"

definition checkForDevWorkspaceError ::
  "(DevWorkspace \<Rightarrow> string option) \<Rightarrow> DevWorkspace \<Rightarrow> thrown + unit" where
  "checkForDevWorkspaceError getStatus devworkspace =
     (let currentPhase = getStatus devworkspace
      in if truthy currentPhase \<and> currentPhase = Some FAILED then
           (let m = statusMessageOf devworkspace
            in if truthy m then Inl (ThrowError (the m))
               else Inl (ThrowError unknownErrorText))
         else Inr ())"

record IPatch =
  p_op :: string
  p_path :: string
  p_value :: jsprim

text \<open>
  \<open>changeWorkspaceStatus\<close>. \<open>DwApi.patchWorkspace\<close> (dashboard-backend-client) is not
  among the sources and is a parameter: its promise resolves with the changed workspace
  (\<open>Inr\<close>) or rejects with a reason (\<open>Inl\<close>).
\<close>

definition startedPatch :: "bool \<Rightarrow> IPatch list" where
  "startedPatch started =
     [\<lparr> p_op = ''replace'', p_path = ''/spec/started'', p_value = JBoolean started \<rparr>]"

definition changeWorkspaceStatus ::
  "(string \<Rightarrow> string \<Rightarrow> IPatch list \<Rightarrow> string + DevWorkspace) \<Rightarrow> (DevWorkspace \<Rightarrow> string)
     \<Rightarrow> (DevWorkspace \<Rightarrow> string option) \<Rightarrow> string \<Rightarrow> string \<Rightarrow> bool
     \<Rightarrow> DevWorkspaceClient \<Rightarrow> (thrown + DevWorkspace) \<times> DevWorkspaceClient" where
  "changeWorkspaceStatus patchWorkspace getId getStatus namespace name started s =
     (case patchWorkspace namespace name (startedPatch started) of
        Inl r \<Rightarrow> (Inl (Rejected r), s)
      | Inr changedWorkspace \<Rightarrow>
          (let s1 = (if \<not> started then
                       s\<lparr>lastDevWorkspaceLog :=
                           (lastDevWorkspaceLog s)(getId changedWorkspace := None)\<rparr>
                     else s)
           in case checkForDevWorkspaceError getStatus changedWorkspace of
                Inl e \<Rightarrow> (Inl e, s1)
              | Inr u \<Rightarrow> (Inr changedWorkspace, s1)))"

subsection \<open>Concrete workspaces and helpers, for evaluation\<close>

definition kindGuard :: "unknown \<Rightarrow> DevWorkspace option" where
  "kindGuard payload =
     (case payload of
        UObject d \<Rightarrow> (if dw_kind d = ''DevWorkspace'' then Some d else None)
      | UPrim v \<Rightarrow> None)"

definition uidOf :: "DevWorkspace \<Rightarrow> string" where
  "uidOf d = md_uid (dw_metadata d)"

definition workspace :: "string \<Rightarrow> string \<Rightarrow> jsprim \<Rightarrow> string option \<Rightarrow> DevWorkspace" where
  "workspace ns wid ph msg =
     \<lparr> dw_kind = ''DevWorkspace'',
       dw_metadata = \<lparr> md_name = wid, md_namespace = ns, md_uid = wid \<rparr>,
       dw_status = Some \<lparr> st_phase = ph, st_message = msg, st_mainUrl = None \<rparr> \<rparr>"

definition patchEcho :: "string \<Rightarrow> string \<Rightarrow> IPatch list \<Rightarrow> string + DevWorkspace" where
  "patchEcho ns nm ps = Inr (workspace ns nm (JString STOPPED) None)"

definition patchRefused :: "string \<Rightarrow> string \<Rightarrow> IPatch list \<Rightarrow> string + DevWorkspace" where
  "patchRefused ns nm ps = Inl ''Forbidden''"

definition subscriberNs1 :: Subscriber where
  "subscriberNs1 =
     \<lparr> sub_namespace = ''ns1'', getResourceVersion = (\<lambda>n. Inr (Some ''42'')) \<rparr>"


text \<open>
  The client after one \<open>onModified\<close> event for \<open>w1\<close> in \<open>ns1\<close>, STARTING, with the
  message \<open>Pulling image\<close>.
\<close>

definition afterPulling :: DevWorkspaceClient where
  "afterPulling =
     snd (onModifiedListener kindGuard uidOf
            (UObject (workspace ''ns1'' ''w1'' (JString STARTING) (Some ''Pulling image'')))
            newDevWorkspaceClient)"

subsection \<open>The promises awaited by one run of \<open>subscribe\<close>\<close>

text \<open>
  From the client \<open>s\<close>, a run of \<open>subscribe\<close> that is not cut short asks the subscriber
  for the resource version three times and hands three requests to the transport.
  \<open>subscribeResolves sub s\<close> says that none of these six promises rejects.
\<close>

definition subscribeResolves :: "Subscriber \<Rightarrow> DevWorkspaceClient \<Rightarrow> bool" where
  "subscribeResolves sub s =
     list_all
       (\<lambda>i. \<not> isl (getResourceVersion sub (resourceVersionAsked s + i))
            \<and> subscribeRejection (websocketClient s) (length (sent (websocketClient s)) + i)
                = None)
       [0, 1, 2]"

section \<open>Properties\<close>

subsection \<open>Facts about \<open>createStatusUpdate\<close> and the \<open>onModified\<close> listener\<close>

lemma createStatusUpdate_status:
  "status (fst (createStatusUpdate getId d s)) = Some (phaseOrStarting d)"
  by (simp add: createStatusUpdate_def Let_def split: option.splits)

lemma createStatusUpdate_message:
  "message (fst (createStatusUpdate getId d s)) = None"
  by (simp add: createStatusUpdate_def Let_def split: option.splits)

lemma createStatusUpdate_workspaceId:
  "workspaceId (fst (createStatusUpdate getId d s)) = getId d"
  by (simp add: createStatusUpdate_def Let_def split: option.splits)

text \<open>
  The previous status that is reported, in each of the three situations of the cache: no
  map for the namespace, a map without the workspace, a map with the workspace.
\<close>

lemma createStatusUpdate_prevStatus:
  "prevStatus (fst (createStatusUpdate getId d s)) =
     (case previousItems s (md_namespace (dw_metadata d)) of
        None \<Rightarrow> Some (phaseOrStarting d)
      | Some items \<Rightarrow> (case items (getId d) of None \<Rightarrow> None | Some u \<Rightarrow> status u))"
  by (simp add: createStatusUpdate_def Let_def split: option.splits)

lemma createStatusUpdate_cached:
  "\<exists>items. previousItems (snd (createStatusUpdate getId d s)) (md_namespace (dw_metadata d))
              = Some items
     \<and> items (getId d) = Some (fst (createStatusUpdate getId d s))"
  by (simp add: createStatusUpdate_def Let_def split: option.splits)

lemma createStatusUpdate_frame:
  "lastDevWorkspaceLog (snd (createStatusUpdate getId d s)) = lastDevWorkspaceLog s"
  "calls (snd (createStatusUpdate getId d s)) = calls s"
  "alerts (snd (createStatusUpdate getId d s)) = alerts s"
  by (simp_all add: createStatusUpdate_def Let_def split: option.splits)

lemma setCachedMessage_frame:
  "lastDevWorkspaceLog (setCachedMessage ns w m s) = lastDevWorkspaceLog s"
  "calls (setCachedMessage ns w m s) = calls s"
  "alerts (setCachedMessage ns w m s) = alerts s"
  by (simp_all add: setCachedMessage_def split: option.splits)

lemma phaseOrStarting_phaseOf:
  "phaseOrStarting d = (case phaseOf d of None \<Rightarrow> STARTING | Some p \<Rightarrow> p)"
  by (simp add: phaseOrStarting_def phaseOf_def split: option.splits jsprim.splits)

lemma typeof_string_iff: "(typeof p = ''string'') = (\<exists>w. p = UPrim (JString w))"
  by (cases p rule: typeof.cases) simp_all

text \<open>
  A payload that passes the guard is forwarded exactly once, as the update made by
  \<open>createStatusUpdate\<close> with the message attached or not.
\<close>

lemma onModifiedListener_valid_calls:
  assumes "isDevWorkspace payload = Some d"
  shows "calls (snd (onModifiedListener isDevWorkspace getId payload s)) =
           calls s @ [UpdateDevWorkspaceStatus
             ((fst (createStatusUpdate getId d s))
                \<lparr>message := (if truthy (statusMessageOf d)
                                 \<and> lastDevWorkspaceLog s (getId d) \<noteq> statusMessageOf d
                              then statusMessageOf d else None)\<rparr>)]"
proof -
  obtain u s1 where c: "createStatusUpdate getId d s = (u, s1)"
    by (cases "createStatusUpdate getId d s")
  have m: "message u = None"
    using createStatusUpdate_message [of getId d s] c by simp
  have l: "lastDevWorkspaceLog s1 = lastDevWorkspaceLog s" and k: "calls s1 = calls s"
    using createStatusUpdate_frame [of getId d s] c by simp_all
  have u: "u\<lparr>message := None\<rparr> = u"
    using m by simp
  show ?thesis
    using assms c l k u
    by (simp add: onModifiedListener_def Let_def callback_def setCachedMessage_frame)
qed

lemma onModifiedListener_valid_log:
  assumes "isDevWorkspace payload = Some d"
  shows "lastDevWorkspaceLog (snd (onModifiedListener isDevWorkspace getId payload s)) =
           (if truthy (statusMessageOf d)
            then (lastDevWorkspaceLog s)(getId d := statusMessageOf d)
            else lastDevWorkspaceLog s)"
proof -
  obtain u s1 where c: "createStatusUpdate getId d s = (u, s1)"
    by (cases "createStatusUpdate getId d s")
  have l: "lastDevWorkspaceLog s1 = lastDevWorkspaceLog s"
    using createStatusUpdate_frame [of getId d s] c by simp
  show ?thesis
  proof (cases "statusMessageOf d")
    case None
    then show ?thesis
      using assms c l by (simp add: onModifiedListener_def Let_def callback_def)
  next
    case (Some m)
    then show ?thesis
      using assms c l
      by (auto simp add: onModifiedListener_def Let_def callback_def setCachedMessage_frame
            fun_upd_idem_iff)
  qed
qed

lemma onModifiedListener_invalid:
  assumes "isDevWorkspace payload = None"
  shows "onModifiedListener isDevWorkspace getId payload s =
           (Inr (), showAlert \<lparr> key = channelKey onModified, variant = Warning,
                       title = notDevWorkspaceTitle onModified \<rparr>
             (consoleWarn (notDevWorkspaceTitle onModified) s))"
  using assms by (simp add: onModifiedListener_def)

subsection \<open>The previous status of a workspace\<close>

text \<open>
  Claim C1. The previous status reported for a workspace is the status cached for that
  workspace in its namespace, and the current status when nothing is cached for it.
  \<open>createStatusUpdate\<close> does the second only when the namespace has no map yet (the
  branch commented \<open>there is not a previous update\<close>). For a workspace that is new in a
  namespace that already holds another workspace the other branch runs and reports
  \<open>prevStatus\<close> as \<open>undefined\<close>: after \<open>w1\<close> in \<open>ns1\<close>, the first update of \<open>w2\<close> in
  \<open>ns1\<close>, which is RUNNING, has no previous status.
\<close>

theorem createStatusUpdate_second_workspace_prevStatus:
  "prevStatus (fst (createStatusUpdate uidOf (workspace ''ns1'' ''w2'' (JString RUNNING) None)
      (snd (createStatusUpdate uidOf (workspace ''ns1'' ''w1'' (JString RUNNING) None)
              newDevWorkspaceClient)))) = None
   \<and> status (fst (createStatusUpdate uidOf (workspace ''ns1'' ''w2'' (JString RUNNING) None)
      (snd (createStatusUpdate uidOf (workspace ''ns1'' ''w1'' (JString RUNNING) None)
              newDevWorkspaceClient)))) = Some RUNNING
   \<and> previousItems newDevWorkspaceClient ''ns1'' = None"
  by (simp add: createStatusUpdate_def Let_def uidOf_def workspace_def newDevWorkspaceClient_def
        phaseOrStarting_def)

subsection \<open>A missing phase\<close>

text \<open>
  Claim C10. For a devworkspace that passes the guard of the \<open>onModified\<close> channel and
  whose status, or whose status phase, is absent or is not a string,
  \<open>createStatusUpdate\<close> reports the status STARTING, and that is the status of the
  update handed to \<open>updateDevWorkspaceStatus\<close>.
\<close>

theorem createStatusUpdate_missing_phase_is_STARTING:
  assumes "isDevWorkspace payload = Some d"
      and "dw_status d = None
           \<or> (\<exists>st. dw_status d = Some st \<and> typeof (UPrim (st_phase st)) \<noteq> ''string'')"
  shows "status (fst (createStatusUpdate getId d s)) = Some STARTING
         \<and> (\<exists>u. calls (snd (onModifiedListener isDevWorkspace getId payload s))
                    = calls s @ [UpdateDevWorkspaceStatus u]
                \<and> status u = Some STARTING)"
proof -
  have "phaseOf d = None"
    using assms(2) by (auto simp add: phaseOf_def typeof_string_iff split: jsprim.splits)
  then have st: "status (fst (createStatusUpdate getId d s)) = Some STARTING"
    by (simp add: createStatusUpdate_status phaseOrStarting_phaseOf)
  then show ?thesis
    using assms(1) onModifiedListener_valid_calls [of isDevWorkspace payload d getId s] by simp
qed

theorem createStatusUpdate_missing_phase_is_STARTING_witness:
  "kindGuard (UObject (workspace ''ns1'' ''w1'' JUndefined None))
     = Some (workspace ''ns1'' ''w1'' JUndefined None)
   \<and> typeof (UPrim (st_phase (the (dw_status (workspace ''ns1'' ''w1'' JUndefined None)))))
       \<noteq> ''string''
   \<and> status (fst (createStatusUpdate uidOf (workspace ''ns1'' ''w1'' JUndefined None)
                newDevWorkspaceClient)) = Some STARTING"
  using createStatusUpdate_missing_phase_is_STARTING
          [of kindGuard "UObject (workspace ''ns1'' ''w1'' JUndefined None)"
              "workspace ''ns1'' ''w1'' JUndefined None" uidOf newDevWorkspaceClient]
  by (simp add: kindGuard_def workspace_def)

lemma afterPulling_log: "lastDevWorkspaceLog afterPulling ''w1'' = Some ''Pulling image''"
  by (simp add: afterPulling_def onModifiedListener_def kindGuard_def workspace_def
        statusMessageOf_def uidOf_def createStatusUpdate_def Let_def newDevWorkspaceClient_def
        setCachedMessage_def callback_def)

subsection \<open>Status messages\<close>

text \<open>
  Claim C2, as the class implements it. For a payload that passes the guard and carries a
  status message \<open>m\<close>, exactly one update is forwarded. The message is attached to it
  when \<open>m\<close> is not empty and differs from the last message recorded for the workspace id
  (or none is recorded), and \<open>m\<close> is then the last message recorded; a non-empty message
  equal to the last recorded one is not attached; an empty message is never attached and
  leaves the record as it is.
\<close>

theorem onModified_message_forwarding:
  assumes "isDevWorkspace payload = Some d"
      and "statusMessageOf d = Some m"
  shows "calls (snd (onModifiedListener isDevWorkspace getId payload s)) =
           calls s @ [UpdateDevWorkspaceStatus
             ((fst (createStatusUpdate getId d s))
                \<lparr>message := (if m \<noteq> [] \<and> lastDevWorkspaceLog s (getId d) \<noteq> Some m
                              then Some m else None)\<rparr>)]
         \<and> lastDevWorkspaceLog (snd (onModifiedListener isDevWorkspace getId payload s)) =
             (if m \<noteq> [] then (lastDevWorkspaceLog s)(getId d \<mapsto> m)
              else lastDevWorkspaceLog s)"
  using assms onModifiedListener_valid_calls [of isDevWorkspace payload d getId s]
        onModifiedListener_valid_log [of isDevWorkspace payload d getId s]
  by simp

theorem onModified_message_forwarding_witness:
  "kindGuard (UObject (workspace ''ns1'' ''w1'' (JString STARTING) (Some ''Pulling image'')))
     = Some (workspace ''ns1'' ''w1'' (JString STARTING) (Some ''Pulling image''))
   \<and> statusMessageOf (workspace ''ns1'' ''w1'' (JString STARTING) (Some ''Pulling image''))
       = Some ''Pulling image''
   \<and> lastDevWorkspaceLog (snd (onModifiedListener kindGuard uidOf
         (UObject (workspace ''ns1'' ''w1'' (JString STARTING) (Some ''Pulling image'')))
         newDevWorkspaceClient)) ''w1'' = Some ''Pulling image''"
  using onModified_message_forwarding
          [of kindGuard "UObject (workspace ''ns1'' ''w1'' (JString STARTING) (Some ''Pulling image''))"
              "workspace ''ns1'' ''w1'' (JString STARTING) (Some ''Pulling image'')"
              "''Pulling image''" uidOf newDevWorkspaceClient]
  by (simp add: kindGuard_def workspace_def statusMessageOf_def uidOf_def)

text \<open>
  Claim C2 as stated lets every message that differs from the last recorded one be
  attached. The listener tests \<open>if (statusMessage)\<close> first, and the empty string is
  falsy: after \<open>Pulling image\<close> was recorded for \<open>w1\<close>, an event for \<open>w1\<close> whose
  status message is the empty string is forwarded without a message.
\<close>

theorem onModified_empty_message_counterexample:
  "statusMessageOf (workspace ''ns1'' ''w1'' (JString RUNNING) (Some [])) = Some []
   \<and> lastDevWorkspaceLog afterPulling (uidOf (workspace ''ns1'' ''w1'' (JString RUNNING) (Some [])))
       = Some ''Pulling image''
   \<and> calls (snd (onModifiedListener kindGuard uidOf
                 (UObject (workspace ''ns1'' ''w1'' (JString RUNNING) (Some []))) afterPulling))
       = calls afterPulling @
         [UpdateDevWorkspaceStatus
            \<lparr> error = None, message = None, status = Some RUNNING,
              prevStatus = Some STARTING, workspaceId = ''w1'' \<rparr>]"
  by (simp add: afterPulling_def onModifiedListener_def kindGuard_def workspace_def
        statusMessageOf_def uidOf_def createStatusUpdate_def Let_def newDevWorkspaceClient_def
        setCachedMessage_def callback_def phaseOrStarting_def)

subsection \<open>Payloads that fail the check of their channel\<close>

text \<open>
  Claim C3. On the \<open>onDeleted\<close> channel a payload that is not a string leads to no call
  of \<open>updateDeletedDevWorkspaces\<close>, to exactly one alert, a warning with the key
  \<open>onDeleted-websocket-channel\<close>, and to one console warning; a string payload leads to
  exactly one call of \<open>updateDeletedDevWorkspaces\<close>, with the list of that one id, and
  to no alert. The listener returns normally in both cases.
\<close>

theorem onDeleted_payload:
  "(typeof p \<noteq> ''string'' \<longrightarrow>
      fst (onDeletedListener p s) = Inr ()
      \<and> calls (snd (onDeletedListener p s)) = calls s
      \<and> alerts (snd (onDeletedListener p s)) =
          alerts s @ [\<lparr> key = ''onDeleted-websocket-channel'', variant = Warning,
                        title = notStringTitle ''onDeleted'' \<rparr>]
      \<and> consoleWarnings (snd (onDeletedListener p s)) =
          consoleWarnings s @ [notStringTitle ''onDeleted''])
   \<and> (\<forall>w. p = UPrim (JString w) \<longrightarrow>
         fst (onDeletedListener p s) = Inr ()
         \<and> calls (snd (onDeletedListener p s)) = calls s @ [UpdateDeletedDevWorkspaces [w]]
         \<and> alerts (snd (onDeletedListener p s)) = alerts s
         \<and> consoleWarnings (snd (onDeletedListener p s)) = consoleWarnings s)"
  by (simp add: onDeletedListener_def showAlert_def consoleWarn_def callback_def
        channelKey_def onDeleted_def)

theorem onDeleted_payload_witness:
  "typeof (UPrim (JNumber 7)) \<noteq> ''string''
   \<and> calls (snd (onDeletedListener (UPrim (JNumber 7)) newDevWorkspaceClient)) = []
   \<and> length (alerts (snd (onDeletedListener (UPrim (JNumber 7)) newDevWorkspaceClient))) = 1
   \<and> calls (snd (onDeletedListener (UPrim (JString ''w1'')) newDevWorkspaceClient))
       = [UpdateDeletedDevWorkspaces [''w1'']]"
  using onDeleted_payload [of "UPrim (JNumber 7)" newDevWorkspaceClient]
        onDeleted_payload [of "UPrim (JString ''w1'')" newDevWorkspaceClient]
  by (simp add: newDevWorkspaceClient_def)

text \<open>
  Claim C4. On the \<open>onModified\<close> channel a payload that fails \<open>isDevWorkspace\<close> leads
  to no call of \<open>updateDevWorkspaceStatus\<close> (nor of any other callback), leaves
  \<open>previousItems\<close> and \<open>lastDevWorkspaceLog\<close> as they are, and the listener returns
  normally.
\<close>

theorem onModified_invalid_payload:
  assumes "isDevWorkspace payload = None"
  shows "fst (onModifiedListener isDevWorkspace getId payload s) = Inr ()
         \<and> calls (snd (onModifiedListener isDevWorkspace getId payload s)) = calls s
         \<and> previousItems (snd (onModifiedListener isDevWorkspace getId payload s))
             = previousItems s
         \<and> lastDevWorkspaceLog (snd (onModifiedListener isDevWorkspace getId payload s))
             = lastDevWorkspaceLog s"
  using assms by (simp add: onModifiedListener_def showAlert_def consoleWarn_def)

theorem onModified_invalid_payload_witness:
  "kindGuard (UPrim (JString ''w1'')) = None
   \<and> fst (onModifiedListener kindGuard uidOf (UPrim (JString ''w1'')) afterPulling) = Inr ()
   \<and> calls (snd (onModifiedListener kindGuard uidOf (UPrim (JString ''w1'')) afterPulling))
       = calls afterPulling
   \<and> lastDevWorkspaceLog
        (snd (onModifiedListener kindGuard uidOf (UPrim (JString ''w1'')) afterPulling)) ''w1''
       = Some ''Pulling image''"
  using onModified_invalid_payload [of kindGuard "UPrim (JString ''w1'')" uidOf afterPulling]
        afterPulling_log
  by (simp add: kindGuard_def)

subsection \<open>Removing the failure listeners\<close>

text \<open>
  Claim C6. \<open>removeWebSocketFailedListener\<close> leaves no callback registered for the
  WebSocket event and no failing context (\<open>failingWebSockets\<close> is empty); the WebSocket
  client, the subscriber, \<open>previousItems\<close> and \<open>lastDevWorkspaceLog\<close> are unchanged.
\<close>

theorem removeWebSocketFailedListener_effect:
  "webSocketEventListeners (removeWebSocketFailedListener s) = []
   \<and> failingWebSockets (removeWebSocketFailedListener s) = []
   \<and> websocketClient (removeWebSocketFailedListener s) = websocketClient s
   \<and> subscriber (removeWebSocketFailedListener s) = subscriber s
   \<and> previousItems (removeWebSocketFailedListener s) = previousItems s
   \<and> lastDevWorkspaceLog (removeWebSocketFailedListener s) = lastDevWorkspaceLog s"
  by (simp add: removeWebSocketFailedListener_def failingWebSockets_def)

subsection \<open>Failed workspaces\<close>

text \<open>
  Claim C7, as the class implements it. Let \<open>getStatus\<close> report FAILED exactly for the
  devworkspaces whose status phase is FAILED. Then for such a devworkspace
  \<open>checkForDevWorkspaceError\<close> throws an error with the status message when that message
  is present and not empty, and with the text
  \<open>Unknown error occured when trying to process the devworkspace\<close> when the message is
  absent or empty; for every other devworkspace it returns without throwing.
\<close>

theorem checkForDevWorkspaceError_cases:
  assumes "(getStatus d = Some FAILED) = (phaseOf d = Some FAILED)"
  shows "checkForDevWorkspaceError getStatus d =
           (if phaseOf d = Some FAILED then
              (case statusMessageOf d of
                 None \<Rightarrow>
                   Inl (ThrowError ''Unknown error occured when trying to process the devworkspace'')
               | Some m \<Rightarrow>
                   (if m \<noteq> [] then Inl (ThrowError m)
                    else Inl (ThrowError
                           ''Unknown error occured when trying to process the devworkspace'')))
            else Inr ())"
  using assms
  by (cases "getStatus d")
     (auto simp add: checkForDevWorkspaceError_def Let_def unknownErrorText_def FAILED_def
        split: option.splits)

theorem checkForDevWorkspaceError_cases_witness:
  "(phaseOf (workspace ''ns1'' ''w1'' (JString FAILED) (Some ''boom'')) = Some FAILED)
     = (phaseOf (workspace ''ns1'' ''w1'' (JString FAILED) (Some ''boom'')) = Some FAILED)
   \<and> checkForDevWorkspaceError phaseOf (workspace ''ns1'' ''w1'' (JString FAILED) (Some ''boom''))
       = Inl (ThrowError ''boom'')
   \<and> checkForDevWorkspaceError phaseOf (workspace ''ns1'' ''w1'' (JString FAILED) None)
       = Inl (ThrowError ''Unknown error occured when trying to process the devworkspace'')
   \<and> checkForDevWorkspaceError phaseOf (workspace ''ns1'' ''w1'' (JString RUNNING) (Some ''boom''))
       = Inr ()
   \<and> checkForDevWorkspaceError phaseOf (workspace ''ns1'' ''w1'' JUndefined None) = Inr ()"
  using checkForDevWorkspaceError_cases
          [of phaseOf "workspace ''ns1'' ''w1'' (JString FAILED) (Some ''boom'')"]
        checkForDevWorkspaceError_cases
          [of phaseOf "workspace ''ns1'' ''w1'' (JString FAILED) None"]
        checkForDevWorkspaceError_cases
          [of phaseOf "workspace ''ns1'' ''w1'' (JString RUNNING) (Some ''boom'')"]
        checkForDevWorkspaceError_cases
          [of phaseOf "workspace ''ns1'' ''w1'' JUndefined None"]
  by (simp add: phaseOf_def statusMessageOf_def workspace_def FAILED_def RUNNING_def)

text \<open>
  Claim C7 as stated lets the error carry the status message whenever one is present.
  The method tests \<open>if (message)\<close>, and the empty string is falsy: a FAILED devworkspace
  whose status message is the empty string gets the fallback text, not its message.
\<close>

theorem checkForDevWorkspaceError_empty_message_counterexample:
  "phaseOf (workspace ''ns1'' ''w1'' (JString FAILED) (Some [])) = Some FAILED
   \<and> statusMessageOf (workspace ''ns1'' ''w1'' (JString FAILED) (Some [])) = Some []
   \<and> checkForDevWorkspaceError phaseOf (workspace ''ns1'' ''w1'' (JString FAILED) (Some []))
       = Inl (ThrowError ''Unknown error occured when trying to process the devworkspace'')
   \<and> checkForDevWorkspaceError phaseOf (workspace ''ns1'' ''w1'' (JString FAILED) (Some []))
       \<noteq> Inl (ThrowError [])"
  by (simp add: checkForDevWorkspaceError_def phaseOf_def statusMessageOf_def workspace_def
        FAILED_def unknownErrorText_def)

subsection \<open>Subscribing and reconnecting\<close>

text \<open>
  What one run of \<open>subscribe\<close> does when a subscriber is set: it throws nothing but the
  reason of a rejected promise, it returns normally exactly when no promise rejects, and
  the requests it hands to the transport are an initial part of the three, in order.
\<close>

lemma subscribeResolves_iff:
  "subscribeResolves sub s =
     ((\<exists>a. getResourceVersion sub (resourceVersionAsked s) = Inr a)
      \<and> (\<exists>b. getResourceVersion sub (Suc (resourceVersionAsked s)) = Inr b)
      \<and> (\<exists>c. getResourceVersion sub (Suc (Suc (resourceVersionAsked s))) = Inr c)
      \<and> subscribeRejection (websocketClient s) (length (sent (websocketClient s))) = None
      \<and> subscribeRejection (websocketClient s) (Suc (length (sent (websocketClient s)))) = None
      \<and> subscribeRejection (websocketClient s) (Suc (Suc (length (sent (websocketClient s)))))
          = None)"
proof -
  have isl: "\<And>x :: string + string option. (\<not> isl x) = (\<exists>a. x = Inr a)"
    by (case_tac x) simp_all
  have two: "(2::nat) = Suc (Suc 0)" by simp
  show ?thesis
    unfolding subscribeResolves_def by (auto simp add: isl two)
qed

lemmas subscribe_unfold =
  subscribe_def subscribeChannel_def getSubscribeMessage_def wsSubscribe_def wsAddListener_def
  callback_def Let_def onModified_def onAdded_def onDeleted_def


lemma subscribe_thrown:
  assumes "subscriber s = Some sub"
  shows "fst (subscribe s) = Inr () \<or> (\<exists>r. fst (subscribe s) = Inl (Rejected r))"
  using assms by (simp add: subscribe_unfold split: option.splits sum.splits)

lemma subscribe_resolved:
  assumes "subscriber s = Some sub"
  shows "(fst (subscribe s) = Inr ()) = subscribeResolves sub s"
  using assms
  by (simp add: subscribeResolves_iff subscribe_unfold split: option.splits sum.splits)



text \<open>
  Claim C5. Without a subscriber \<open>subscribe\<close> throws \<open>Error: Subscriber does not set.\<close>
  and leaves the whole client, the transport included, as it was: no subscribe request
  was issued. With a subscriber that error is never thrown: \<open>subscribe\<close> returns
  normally or throws the reason of a promise that rejected, and it returns normally
  exactly when the promises it awaits resolve.
\<close>

theorem subscribe_subscriber_check:
  "(subscriber s = None \<longrightarrow>
      subscribe s = (Inl (ThrowString ''Error: Subscriber does not set.''), s))
   \<and> (subscriber s \<noteq> None \<longrightarrow>
        fst (subscribe s) = Inr () \<or> (\<exists>r. fst (subscribe s) = Inl (Rejected r)))
   \<and> (subscriber s = Some sub \<longrightarrow>
        (fst (subscribe s) = Inr ()) = subscribeResolves sub s)"
proof (intro conjI impI)
  assume "subscriber s = None"
  then show "subscribe s = (Inl (ThrowString ''Error: Subscriber does not set.''), s)"
    by (simp add: subscribe_def)
next
  assume "subscriber s \<noteq> None"
  then obtain sub' where "subscriber s = Some sub'" by auto
  then show "fst (subscribe s) = Inr () \<or> (\<exists>r. fst (subscribe s) = Inl (Rejected r))"
    by (rule subscribe_thrown)
next
  assume "subscriber s = Some sub"
  then show "(fst (subscribe s) = Inr ()) = subscribeResolves sub s"
    by (rule subscribe_resolved)
qed

theorem subscribe_subscriber_check_witness:
  "subscriber newDevWorkspaceClient = None
   \<and> fst (subscribe newDevWorkspaceClient) = Inl (ThrowString ''Error: Subscriber does not set.'')
   \<and> sent (websocketClient (snd (subscribe newDevWorkspaceClient))) = []
   \<and> subscriber (subscribeToNamespace subscriberNs1 newDevWorkspaceClient) = Some subscriberNs1
   \<and> subscribeResolves subscriberNs1 (subscribeToNamespace subscriberNs1 newDevWorkspaceClient)
   \<and> fst (subscribe (subscribeToNamespace subscriberNs1 newDevWorkspaceClient)) = Inr ()"
  using subscribe_subscriber_check [of newDevWorkspaceClient subscriberNs1]
        subscribe_subscriber_check
          [of "subscribeToNamespace subscriberNs1 newDevWorkspaceClient" subscriberNs1]
  by (simp add: newDevWorkspaceClient_def subscribeToNamespace_def wsConnect_def
        subscribeResolves_def subscriberNs1_def)




subsection \<open>Stopping a workspace\<close>

lemma changeWorkspaceStatus_state:
  "snd (changeWorkspaceStatus patchWorkspace getId getStatus namespace name started s) =
     (case patchWorkspace namespace name (startedPatch started) of
        Inl r \<Rightarrow> s
      | Inr changedWorkspace \<Rightarrow>
          (if \<not> started then
             s\<lparr>lastDevWorkspaceLog :=
                 (lastDevWorkspaceLog s)(getId changedWorkspace := None)\<rparr>
           else s))"
  by (simp add: changeWorkspaceStatus_def Let_def split: sum.splits)

text \<open>
  Claim C9, as the class implements it. When the patch request answers with the changed
  workspace, \<open>changeWorkspaceStatus\<close> with \<open>started = false\<close> removes from
  \<open>lastDevWorkspaceLog\<close> the entry of that workspace's id, whether or not the method then
  throws for a FAILED workspace. When the patch request rejects, the method throws the
  reason and leaves the client as it was. With \<open>started = true\<close> the map is unchanged in
  every case. After a removal a non-empty status message of that workspace is attached to
  the next forwarded update, also when it is the message that was recorded before.
\<close>

theorem changeWorkspaceStatus_lastDevWorkspaceLog:
  "(patchWorkspace namespace name (startedPatch False) = Inr changedWorkspace \<longrightarrow>
      lastDevWorkspaceLog
        (snd (changeWorkspaceStatus patchWorkspace getId getStatus namespace name False s))
        = (lastDevWorkspaceLog s)(getId changedWorkspace := None))
   \<and> (patchWorkspace namespace name (startedPatch started) = Inl r \<longrightarrow>
        changeWorkspaceStatus patchWorkspace getId getStatus namespace name started s
          = (Inl (Rejected r), s))
   \<and> lastDevWorkspaceLog
       (snd (changeWorkspaceStatus patchWorkspace getId getStatus namespace name True s))
       = lastDevWorkspaceLog s
   \<and> (patchWorkspace namespace name (startedPatch False) = Inr changedWorkspace
        \<and> isDevWorkspace payload = Some d \<and> statusMessageOf d = Some m \<and> m \<noteq> []
        \<and> getId d = getId changedWorkspace
        \<longrightarrow> (\<exists>u. calls (snd (onModifiedListener isDevWorkspace getId payload
                 (snd (changeWorkspaceStatus patchWorkspace getId getStatus namespace name
                         False s))))
                   = calls s @ [UpdateDevWorkspaceStatus u]
                 \<and> message u = Some m))"
proof (intro conjI impI)
  assume "patchWorkspace namespace name (startedPatch False) = Inr changedWorkspace"
  then show "lastDevWorkspaceLog
        (snd (changeWorkspaceStatus patchWorkspace getId getStatus namespace name False s))
        = (lastDevWorkspaceLog s)(getId changedWorkspace := None)"
    by (simp add: changeWorkspaceStatus_state)
next
  assume "patchWorkspace namespace name (startedPatch started) = Inl r"
  then show "changeWorkspaceStatus patchWorkspace getId getStatus namespace name started s
          = (Inl (Rejected r), s)"
    by (simp add: changeWorkspaceStatus_def)
next
  show "lastDevWorkspaceLog
       (snd (changeWorkspaceStatus patchWorkspace getId getStatus namespace name True s))
       = lastDevWorkspaceLog s"
    by (simp add: changeWorkspaceStatus_state split: sum.splits)
next
  assume a: "patchWorkspace namespace name (startedPatch False) = Inr changedWorkspace
        \<and> isDevWorkspace payload = Some d \<and> statusMessageOf d = Some m \<and> m \<noteq> []
        \<and> getId d = getId changedWorkspace"
  define s' where
    "s' = snd (changeWorkspaceStatus patchWorkspace getId getStatus namespace name False s)"
  have l: "lastDevWorkspaceLog s' (getId d) = None" and c: "calls s' = calls s"
    using a by (simp_all add: s'_def changeWorkspaceStatus_state)
  have "calls (snd (onModifiedListener isDevWorkspace getId payload s')) =
          calls s @ [UpdateDevWorkspaceStatus
                       ((fst (createStatusUpdate getId d s'))\<lparr>message := Some m\<rparr>)]"
    using a l c onModifiedListener_valid_calls [of isDevWorkspace payload d getId s'] by simp
  then show "\<exists>u. calls (snd (onModifiedListener isDevWorkspace getId payload
                 (snd (changeWorkspaceStatus patchWorkspace getId getStatus namespace name
                         False s))))
                   = calls s @ [UpdateDevWorkspaceStatus u]
                 \<and> message u = Some m"
    unfolding s'_def by simp
qed

theorem changeWorkspaceStatus_lastDevWorkspaceLog_witness:
  "lastDevWorkspaceLog afterPulling ''w1'' = Some ''Pulling image''
   \<and> patchEcho ''ns1'' ''w1'' (startedPatch False)
       = Inr (workspace ''ns1'' ''w1'' (JString STOPPED) None)
   \<and> lastDevWorkspaceLog
        (snd (changeWorkspaceStatus patchEcho uidOf phaseOf ''ns1'' ''w1'' False afterPulling))
        ''w1'' = None
   \<and> lastDevWorkspaceLog
        (snd (changeWorkspaceStatus patchEcho uidOf phaseOf ''ns1'' ''w1'' True afterPulling))
        ''w1'' = Some ''Pulling image''
   \<and> (\<exists>u. calls (snd (onModifiedListener kindGuard uidOf
                (UObject (workspace ''ns1'' ''w1'' (JString STARTING) (Some ''Pulling image'')))
                (snd (changeWorkspaceStatus patchEcho uidOf phaseOf ''ns1'' ''w1'' False
                        afterPulling))))
              = calls afterPulling @ [UpdateDevWorkspaceStatus u]
            \<and> message u = Some ''Pulling image'')
   \<and> patchRefused ''ns1'' ''w1'' (startedPatch False) = Inl ''Forbidden''
   \<and> fst (changeWorkspaceStatus patchRefused uidOf phaseOf ''ns1'' ''w1'' False afterPulling)
       = Inl (Rejected ''Forbidden'')"
  using changeWorkspaceStatus_lastDevWorkspaceLog
          [where patchWorkspace = patchEcho and getId = uidOf and getStatus = phaseOf
             and namespace = "''ns1''" and name = "''w1''" and s = afterPulling
             and changedWorkspace = "workspace ''ns1'' ''w1'' (JString STOPPED) None"
             and isDevWorkspace = kindGuard
             and payload = "UObject (workspace ''ns1'' ''w1'' (JString STARTING)
                                       (Some ''Pulling image''))"
             and d = "workspace ''ns1'' ''w1'' (JString STARTING) (Some ''Pulling image'')"
             and m = "''Pulling image''"]
        changeWorkspaceStatus_lastDevWorkspaceLog
          [where patchWorkspace = patchRefused and getId = uidOf and getStatus = phaseOf
             and namespace = "''ns1''" and name = "''w1''" and s = afterPulling
             and started = False and r = "''Forbidden''"]
        afterPulling_log
  by (simp add: patchEcho_def patchRefused_def uidOf_def workspace_def kindGuard_def
        statusMessageOf_def)

text \<open>
  Claim C9 as stated has the entry removed by every call with \<open>started = false\<close>. The
  method awaits \<open>DwApi.patchWorkspace\<close> before it deletes: when that request rejects, the
  entry recorded for \<open>w1\<close> is still there.
\<close>

theorem changeWorkspaceStatus_rejected_counterexample:
  "lastDevWorkspaceLog afterPulling ''w1'' = Some ''Pulling image''
   \<and> changeWorkspaceStatus patchRefused uidOf phaseOf ''ns1'' ''w1'' False afterPulling
       = (Inl (Rejected ''Forbidden''), afterPulling)
   \<and> lastDevWorkspaceLog
        (snd (changeWorkspaceStatus patchRefused uidOf phaseOf ''ns1'' ''w1'' False afterPulling))
        ''w1'' = Some ''Pulling image''"
  using afterPulling_log
  by (simp add: changeWorkspaceStatus_def patchRefused_def)

end
